theory Spec2Isabelle
  imports Main
begin

section \<open>JavaScript values\<close>

subsection \<open>Numbers\<close>

text \<open>
  A JavaScript Number is an IEEE 754 binary64 value. \<open>Finite neg m e\<close> stands for
  \<open>(-1)^neg * m * 2^e\<close>; the values the operations below produce are in canonical form:
  \<open>m < 2^53\<close>, \<open>-1074 \<le> e \<le> 971\<close>, and \<open>e = -1074\<close> whenever \<open>m < 2^52\<close>
  (subnormals and the two zeros), with \<open>0 \<le> m\<close>. \<open>Infinity neg\<close> is the infinity of
  that sign.
\<close>

datatype jsnum = NaN | Infinity bool | Finite bool int int

function bitlen :: "int \<Rightarrow> int" where
  "bitlen n = (if n \<le> 0 then 0 else 1 + bitlen (n div 2))"
  by pat_completeness auto
termination
  by (relation "measure nat") auto

declare bitlen.simps [simp del]

text \<open>
  Rounding to nearest, ties to even, of the exact value \<open>m * 2^e\<close> (plus a positive
  amount below one unit of \<open>2^e\<close> when \<open>sticky\<close> is set), with overflow to infinity and
  gradual underflow.
\<close>

definition round_double :: "bool \<Rightarrow> int \<Rightarrow> int \<Rightarrow> bool \<Rightarrow> jsnum" where
  "round_double neg m e sticky =
     (let e' = max (e + bitlen m - 53) (- 1074) in
      if e' \<le> e then
        (if 971 < e' then Infinity neg else Finite neg (m * 2 ^ nat (e - e')) e')
      else
        (let sh = nat (e' - e);
             q = m div 2 ^ sh;
             r = m mod 2 ^ sh;
             half = 2 ^ (sh - 1);
             up = (half < r \<or> (r = half \<and> (sticky \<or> odd q)));
             q' = (if up then q + 1 else q);
             q'' = (if q' = 2 ^ 53 then 2 ^ 52 else q');
             e'' = (if q' = 2 ^ 53 then e' + 1 else e')
         in if 971 < e'' then Infinity neg else Finite neg q'' e''))"

text \<open>The value of a numeric literal \<open>p / q\<close> (a decimal literal of the source).\<close>

definition literal :: "int \<Rightarrow> int \<Rightarrow> jsnum" where
  "literal p q =
     (if p = 0 then Finite False 0 (- 1074)
      else (let k = 64 + bitlen q; n = p * 2 ^ nat k
            in round_double False (n div q) (- k) (n mod q \<noteq> 0)))"

text \<open>The operator \<open>*\<close> on Numbers.\<close>

fun js_mul :: "jsnum \<Rightarrow> jsnum \<Rightarrow> jsnum" where
  "js_mul NaN _ = NaN"
| "js_mul _ NaN = NaN"
| "js_mul (Infinity s1) (Infinity s2) = Infinity (s1 \<noteq> s2)"
| "js_mul (Infinity s1) (Finite s2 m2 e2) = (if m2 = 0 then NaN else Infinity (s1 \<noteq> s2))"
| "js_mul (Finite s1 m1 e1) (Infinity s2) = (if m1 = 0 then NaN else Infinity (s1 \<noteq> s2))"
| "js_mul (Finite s1 m1 e1) (Finite s2 m2 e2) =
     (if m1 = 0 \<or> m2 = 0 then Finite (s1 \<noteq> s2) 0 (- 1074)
      else round_double (s1 \<noteq> s2) (m1 * m2) (e1 + e2) False)"

text \<open>The operator \<open>/\<close> on Numbers.\<close>

fun js_div :: "jsnum \<Rightarrow> jsnum \<Rightarrow> jsnum" where
  "js_div NaN _ = NaN"
| "js_div _ NaN = NaN"
| "js_div (Infinity s1) (Infinity s2) = NaN"
| "js_div (Infinity s1) (Finite s2 m2 e2) = Infinity (s1 \<noteq> s2)"
| "js_div (Finite s1 m1 e1) (Infinity s2) = Finite (s1 \<noteq> s2) 0 (- 1074)"
| "js_div (Finite s1 m1 e1) (Finite s2 m2 e2) =
     (if m2 = 0 then (if m1 = 0 then NaN else Infinity (s1 \<noteq> s2))
      else if m1 = 0 then Finite (s1 \<noteq> s2) 0 (- 1074)
      else (let k = 64 + bitlen m2; n = m1 * 2 ^ nat k
            in round_double (s1 \<noteq> s2) (n div m2) (e1 - e2 - k) (n mod m2 \<noteq> 0)))"

text \<open>The comparison \<open>x <= 0\<close>: false on \<open>NaN\<close>, true on both zeros.\<close>

fun js_le_zero :: "jsnum \<Rightarrow> bool" where
  "js_le_zero NaN = False"
| "js_le_zero (Infinity neg) = neg"
| "js_le_zero (Finite neg m e) = (m = 0 \<or> neg)"

text \<open>The numeric literal \<open>1\<close>.\<close>

definition js_one :: jsnum where
  "js_one = Finite False 4503599627370496 (- 52)"

subsection \<open>Values, objects and property access\<close>

text \<open>
  The values that \<open>JSON.parse\<close> yields and the widget computes with: \<open>undefined\<close>,
  \<open>null\<close>, Numbers and plain objects (own properties in insertion order). Strings,
  booleans and arrays inside a response body are not modelled, and neither are the
  properties an object inherits from \<open>Object.prototype\<close>.
\<close>

datatype jsval = Undefined | Null | Number jsnum | Object "(string \<times> jsval) list"

datatype js_error = NetworkError | SyntaxError | TypeError | RangeError

text \<open>Truthiness, as \<open>!x\<close>, \<open>x || y\<close> and \<open>if (x)\<close> test it.\<close>

fun ToBoolean :: "jsval \<Rightarrow> bool" where
  "ToBoolean Undefined = False"
| "ToBoolean Null = False"
| "ToBoolean (Number NaN) = False"
| "ToBoolean (Number (Infinity neg)) = True"
| "ToBoolean (Number (Finite neg m e)) = (m \<noteq> 0)"
| "ToBoolean (Object kvs) = True"

text \<open>
  The conversion the arithmetic operators apply to an operand. A plain object is
  converted through its \<open>valueOf\<close> and \<open>toString\<close>: the inherited ones give
  \<open>"[object Object]"\<close> and so \<open>NaN\<close>; an own property \<open>toString\<close> of a parsed body is
  not callable, and the conversion throws a \<open>TypeError\<close>.
\<close>

fun ToNumber :: "jsval \<Rightarrow> js_error + jsnum" where
  "ToNumber Undefined = Inr NaN"
| "ToNumber Null = Inr (Finite False 0 (- 1074))"
| "ToNumber (Number n) = Inr n"
| "ToNumber (Object kvs) = (if map_of kvs ''toString'' = None then Inr NaN else Inl TypeError)"

text \<open>
  Reading an own property of an object: a missing key reads as \<open>undefined\<close>. This is
  what \<open>obj[k]\<close> gives for every key \<open>k\<close> that \<open>Object.prototype\<close> does not define;
  the names it defines (and those of \<open>Number.prototype\<close>, for a read on a Number) are
  listed in \<open>inherited_names\<close>. None of them is a well-formed currency code, and the
  statements about a code that the user chooses are made for well-formed codes.
\<close>

definition inherited_names :: "string list" where
  "inherited_names =
     [''constructor'', ''hasOwnProperty'', ''isPrototypeOf'', ''propertyIsEnumerable'',
      ''toLocaleString'', ''toString'', ''valueOf'', ''__proto__'', ''__defineGetter__'',
      ''__defineSetter__'', ''__lookupGetter__'', ''__lookupSetter__'', ''toExponential'',
      ''toFixed'', ''toPrecision'']"

definition lookup :: "(string \<times> jsval) list \<Rightarrow> string \<Rightarrow> jsval" where
  "lookup kvs k = (case map_of kvs k of None \<Rightarrow> Undefined | Some v \<Rightarrow> v)"

text \<open>
  The member expression \<open>v[k]\<close>: a \<open>TypeError\<close> on \<open>undefined\<close> and \<open>null\<close>,
  \<open>undefined\<close> on a Number.
\<close>

fun js_member :: "jsval \<Rightarrow> string \<Rightarrow> js_error + jsval" where
  "js_member Undefined k = Inl TypeError"
| "js_member Null k = Inl TypeError"
| "js_member (Number n) k = Inr Undefined"
| "js_member (Object kvs) k = Inr (lookup kvs k)"

text \<open>The assignment \<open>obj[k] = v\<close>: an existing key keeps its place, a new one is appended.\<close>

fun assign :: "(string \<times> jsval) list \<Rightarrow> string \<Rightarrow> jsval \<Rightarrow> (string \<times> jsval) list" where
  "assign [] k v = [(k, v)]"
| "assign ((k', v') # kvs) k v =
     (if k' = k then (k, v) # kvs else (k', v') # assign kvs k v)"

section \<open>The environment of the widget\<close>

text \<open>
  A call of \<open>fetch\<close> either rejects (a network failure) or resolves to a response with
  its \<open>ok\<close> flag and the outcome of \<open>response.json()\<close>: \<open>None\<close> when the body is not
  JSON, so that the call rejects with a \<open>SyntaxError\<close>. The network is a function from
  the requested URL to that outcome. An \<open>await\<close> is modelled as the sequential step it is
  for the operation that awaits; interleavings of two operations are not modelled.
\<close>

datatype response = Response (ok: bool) (json: "jsval option")

datatype fetch_result = Rejects | Resolves response

type_synonym network = "string \<Rightarrow> fetch_result"

text \<open>
  What \<open>resultContent.innerHTML\<close> shows: nothing yet, the message of \<open>showError\<close>, or the
  result of \<open>showResult\<close>, given by the values the template interpolates (the amount
  formatted in the target currency, the source code, the rate, the target code).
\<close>

datatype html = Blank | ErrorMessage string | ResultMessage jsnum string jsnum string

text \<open>
  The fields of \<open>CurrencyConverter\<close> and the state of the page elements it touches
  (\<open>initElements\<close>), with the log of \<open>console.error\<close> and the list of the URLs requested
  through \<open>fetch\<close>.
\<close>

record converter =
  exchangeRates :: "(string \<times> jsval) list"
  lastUpdate :: "nat option"
  amountInput :: string
  fromCurrency :: string
  toCurrency :: string
  loading_show :: bool
  resultContent_display :: string
  result_error :: bool
  result_show :: bool
  resultContent_innerHTML :: html
  rateInfo_display :: string
  console :: "(string \<times> js_error) list"
  requests :: "string list"

definition baseUrl :: string where
  "baseUrl = ''https://api.exchangerate-api.com/v4/latest/''"

definition fallbackUrl :: string where
  "fallbackUrl = ''https://api.fxratesapi.com/latest''"

text \<open>
  The state after \<open>initElements\<close>: an empty cache and no update time, for the given
  values of the three input fields. The page elements start without the classes
  \<open>show\<close> and \<open>error\<close>, without an inline \<open>display\<close> and with an empty result.
\<close>

definition initElements :: "string \<Rightarrow> string \<Rightarrow> string \<Rightarrow> converter" where
  "initElements amount from to =
     \<lparr>exchangeRates = [], lastUpdate = None, amountInput = amount, fromCurrency = from,
      toCurrency = to, loading_show = False, resultContent_display = [],
      result_error = False, result_show = False, resultContent_innerHTML = Blank,
      rateInfo_display = [], console = [], requests = []\<rparr>"

definition fetch :: "network \<Rightarrow> string \<Rightarrow> converter \<Rightarrow> (js_error + response) \<times> converter" where
  "fetch net url s =
     (case net url of Rejects \<Rightarrow> Inl NetworkError | Resolves r \<Rightarrow> Inr r,
      s\<lparr>requests := requests s @ [url]\<rparr>)"

definition response_json :: "response \<Rightarrow> js_error + jsval" where
  "response_json r = (case json r of None \<Rightarrow> Inl SyntaxError | Some data \<Rightarrow> Inr data)"

text \<open>The expression \<open>data.rates || data\<close>.\<close>

definition rates_or_data :: "jsval \<Rightarrow> js_error + jsval" where
  "rates_or_data data =
     (case js_member data ''rates'' of
        Inl e \<Rightarrow> Inl e
      | Inr rates \<Rightarrow> Inr (if ToBoolean rates then rates else data))"

definition console_error :: "string \<Rightarrow> js_error \<Rightarrow> converter \<Rightarrow> converter" where
  "console_error msg e s = s\<lparr>console := console s @ [(msg, e)]\<rparr>"

section \<open>The methods of CurrencyConverter\<close>

definition showLoading :: "converter \<Rightarrow> converter" where
  "showLoading s = s\<lparr>loading_show := True, resultContent_display := ''none'',
     result_error := False\<rparr>"

definition showError :: "string \<Rightarrow> converter \<Rightarrow> converter" where
  "showError message s = s\<lparr>loading_show := False, resultContent_display := ''block'',
     result_error := True, resultContent_innerHTML := ErrorMessage message\<rparr>"

text \<open>
  \<open>Intl.NumberFormat\<close> with \<open>style: 'currency'\<close> throws a \<open>RangeError\<close> unless the
  currency code is well formed: three ASCII letters.
\<close>

definition ascii_letter :: "char \<Rightarrow> bool" where
  "ascii_letter c =
     (let n = (of_char c :: nat) in (65 \<le> n \<and> n \<le> 90) \<or> (97 \<le> n \<and> n \<le> 122))"

definition wellformed_currency :: "string \<Rightarrow> bool" where
  "wellformed_currency c = (length c = 3 \<and> list_all ascii_letter c)"

text \<open>
  \<open>showResult(amount, from, to, rate)\<close>. The class changes come first; then the
  formatter is built (a \<open>RangeError\<close> on an ill-formed \<open>to\<close>), then the template calls
  \<open>rate.toFixed(6)\<close> (a \<open>TypeError\<close> unless \<open>rate\<close> is a Number).
\<close>

definition showResult ::
  "jsnum \<Rightarrow> string \<Rightarrow> string \<Rightarrow> jsval \<Rightarrow> converter \<Rightarrow> js_error option \<times> converter" where
  "showResult amount from to rate s =
     (let s1 = s\<lparr>loading_show := False, resultContent_display := ''block'',
                 result_error := False, result_show := True\<rparr>
      in if \<not> wellformed_currency to then (Some RangeError, s1)
         else (case rate of
                 Number r \<Rightarrow>
                   (None, s1\<lparr>resultContent_innerHTML := ResultMessage amount from r to,
                              rateInfo_display := ''block''\<rparr>)
               | _ \<Rightarrow> (Some TypeError, s1)))"

definition fallbackRates :: "(string \<times> jsval) list" where
  "fallbackRates =
     [(''EUR'', Number (literal 85 100)),
      (''GBP'', Number (literal 73 100)),
      (''JPY'', Number (literal 110 1)),
      (''AUD'', Number (literal 135 100)),
      (''CAD'', Number (literal 125 100)),
      (''CHF'', Number (literal 92 100)),
      (''CNY'', Number (literal 645 100)),
      (''INR'', Number (literal 745 10)),
      (''TRY'', Number (literal 85 10)),
      (''USD'', Number (literal 1 1))]"

definition loadFallbackRates :: "converter \<Rightarrow> converter" where
  "loadFallbackRates s =
     s\<lparr>exchangeRates := assign (exchangeRates s) ''USD'' (Object fallbackRates)\<rparr>"

text \<open>
  The \<open>try\<close> block of \<open>loadExchangeRates\<close>, in its two parts; each gives \<open>Some e\<close>
  when it throws \<open>e\<close>, with the state as the statements before the throw left it.
  The first part fetches the table of USD, from the secondary endpoint when the primary
  response is not \<open>ok\<close>, and caches it; \<open>now\<close> is the value of \<open>new Date()\<close>.
\<close>

definition loadExchangeRates_USD ::
  "network \<Rightarrow> nat \<Rightarrow> converter \<Rightarrow> js_error option \<times> converter" where
  "loadExchangeRates_USD net now s =
     (case fetch net (baseUrl @ ''USD'') s of
        (Inl e, s1) \<Rightarrow> (Some e, s1)
      | (Inr primary, s1) \<Rightarrow>
          (case (if \<not> ok primary then fetch net (fallbackUrl @ ''?base=USD'') s1
                 else (Inr primary, s1)) of
             (Inl e, s2) \<Rightarrow> (Some e, s2)
           | (Inr response, s2) \<Rightarrow>
               (case response_json response of
                  Inl e \<Rightarrow> (Some e, s2)
                | Inr data \<Rightarrow>
                    (case rates_or_data data of
                       Inl e \<Rightarrow> (Some e, s2)
                     | Inr usd \<Rightarrow>
                         (None, s2\<lparr>exchangeRates := assign (exchangeRates s2) ''USD'' usd,
                                    lastUpdate := Some now\<rparr>)))))"

text \<open>The second part fetches the table of EUR and caches it when the response is \<open>ok\<close>.\<close>

definition loadExchangeRates_EUR :: "network \<Rightarrow> converter \<Rightarrow> js_error option \<times> converter" where
  "loadExchangeRates_EUR net s =
     (case fetch net (baseUrl @ ''EUR'') s of
        (Inl e, s1) \<Rightarrow> (Some e, s1)
      | (Inr response, s1) \<Rightarrow>
          if ok response then
            (case response_json response of
               Inl e \<Rightarrow> (Some e, s1)
             | Inr eurData \<Rightarrow>
                 (case rates_or_data eurData of
                    Inl e \<Rightarrow> (Some e, s1)
                  | Inr eur \<Rightarrow>
                      (None, s1\<lparr>exchangeRates := assign (exchangeRates s1) ''EUR'' eur\<rparr>)))
          else (None, s1))"

definition loadExchangeRates_try ::
  "network \<Rightarrow> nat \<Rightarrow> converter \<Rightarrow> js_error option \<times> converter" where
  "loadExchangeRates_try net now s =
     (case loadExchangeRates_USD net now s of
        (Some e, s1) \<Rightarrow> (Some e, s1)
      | (None, s1) \<Rightarrow> loadExchangeRates_EUR net s1)"

definition loadExchangeRates :: "network \<Rightarrow> nat \<Rightarrow> converter \<Rightarrow> converter" where
  "loadExchangeRates net now s =
     (case loadExchangeRates_try net now s of
        (None, s') \<Rightarrow> s'
      | (Some error, s') \<Rightarrow>
          loadFallbackRates
            (showError ''Failed to load exchange rates. Using fallback rates.''
               (console_error ''Error loading exchange rates:'' error s')))"

text \<open>The \<open>try\<close> block of \<open>getExchangeRate\<close>: fetch the table of \<open>from\<close> and cache it.\<close>

definition getExchangeRate_try ::
  "network \<Rightarrow> string \<Rightarrow> converter \<Rightarrow> js_error option \<times> converter" where
  "getExchangeRate_try net from s =
     (case fetch net (baseUrl @ from) s of
        (Inl e, s1) \<Rightarrow> (Some e, s1)
      | (Inr response, s1) \<Rightarrow>
          (case response_json response of
             Inl e \<Rightarrow> (Some e, s1)
           | Inr data \<Rightarrow>
               (case rates_or_data data of
                  Inl e \<Rightarrow> (Some e, s1)
                | Inr t \<Rightarrow>
                    (None, s1\<lparr>exchangeRates := assign (exchangeRates s1) from t\<rparr>))))"

text \<open>
  The \<open>catch\<close> block, entered with a truthy \<open>usd = this.exchangeRates['USD']\<close>:
  \<open>usdToFrom = 1 / usd[from]\<close>, \<open>usdToTo = usd[to]\<close>, \<open>return usdToTo * usdToFrom\<close>.
\<close>

definition cross_rate :: "jsval \<Rightarrow> string \<Rightarrow> string \<Rightarrow> js_error + jsval" where
  "cross_rate usd from to =
     (case js_member usd from of
        Inl e \<Rightarrow> Inl e
      | Inr f \<Rightarrow>
          (case ToNumber f of
             Inl e \<Rightarrow> Inl e
           | Inr n \<Rightarrow>
               (let usdToFrom = js_div js_one n
                in case js_member usd to of
                     Inl e \<Rightarrow> Inl e
                   | Inr usdToTo \<Rightarrow>
                       (case ToNumber usdToTo of
                          Inl e \<Rightarrow> Inl e
                        | Inr t \<Rightarrow> Inr (Number (js_mul t usdToFrom))))))"

text \<open>
  The last line:
  \<open>return this.exchangeRates[from][to] || (1 / this.exchangeRates[to][from])\<close>.
\<close>

definition direct_or_inverse ::
  "(string \<times> jsval) list \<Rightarrow> string \<Rightarrow> string \<Rightarrow> js_error + jsval" where
  "direct_or_inverse rates from to =
     (case js_member (lookup rates from) to of
        Inl e \<Rightarrow> Inl e
      | Inr direct \<Rightarrow>
          if ToBoolean direct then Inr direct
          else (case js_member (lookup rates to) from of
                  Inl e \<Rightarrow> Inl e
                | Inr back \<Rightarrow>
                    (case ToNumber back of
                       Inl e \<Rightarrow> Inl e
                     | Inr n \<Rightarrow> Inr (Number (js_div js_one n)))))"

definition getExchangeRate ::
  "network \<Rightarrow> string \<Rightarrow> string \<Rightarrow> converter \<Rightarrow> (js_error + jsval) \<times> converter" where
  "getExchangeRate net from to s =
     (if \<not> ToBoolean (lookup (exchangeRates s) from) then
        (case getExchangeRate_try net from s of
           (Some error, s1) \<Rightarrow>
             (if ToBoolean (lookup (exchangeRates s1) ''USD'')
              then (cross_rate (lookup (exchangeRates s1) ''USD'') from to, s1)
              else (Inl error, s1))
         | (None, s1) \<Rightarrow> (direct_or_inverse (exchangeRates s1) from to, s1))
      else (direct_or_inverse (exchangeRates s) from to, s))"

text \<open>
  \<open>convertCurrency\<close>, for the built-in \<open>parseFloat\<close> given as a function. The result is
  \<open>Some e\<close> when the call ends with the uncaught exception \<open>e\<close>.
\<close>

definition convertCurrency ::
  "(string \<Rightarrow> jsnum) \<Rightarrow> network \<Rightarrow> converter \<Rightarrow> js_error option \<times> converter" where
  "convertCurrency parseFloat net s =
     (let amount = parseFloat (amountInput s);
          from = fromCurrency s;
          to = toCurrency s
      in if \<not> ToBoolean (Number amount) \<or> js_le_zero amount then
           (None, showError ''Please enter a valid amount'' s)
         else if from = to then showResult amount from to (Number js_one) s
         else
           (case getExchangeRate net from to (showLoading s) of
              (Inl error, s2) \<Rightarrow>
                (None, showError ''Conversion failed. Please try again.''
                         (console_error ''Conversion error:'' error s2))
            | (Inr rate, s2) \<Rightarrow>
                (case ToNumber rate of
                   Inl error \<Rightarrow>
                     (None, showError ''Conversion failed. Please try again.''
                              (console_error ''Conversion error:'' error s2))
                 | Inr r \<Rightarrow>
                     (let convertedAmount = js_mul amount r
                      in case showResult convertedAmount from to rate s2 of
                           (Some error, s3) \<Rightarrow>
                             (None, showError ''Conversion failed. Please try again.''
                                      (console_error ''Conversion error:'' error s3))
                         | (None, s3) \<Rightarrow> (None, s3)))))"

section \<open>Scenarios\<close>

text \<open>A network on which every request fails.\<close>

definition offline :: network where
  "offline url = Rejects"

text \<open>
  The primary endpoint answers every request with an error status and no JSON body;
  the secondary endpoint answers with a wrapped table.
\<close>

definition primary_unavailable :: network where
  "primary_unavailable url =
     (if url = fallbackUrl @ ''?base=USD''
      then Resolves (Response True
             (Some (Object [(''rates'', Object [(''EUR'', Number (literal 9 10))])])))
      else Resolves (Response False None))"

text \<open>
  The primary endpoint answers the request for USD with an error status, the secondary
  endpoint answers with a wrapped table, and the request for EUR fails.
\<close>

definition primary_lost :: network where
  "primary_lost url =
     (if url = fallbackUrl @ ''?base=USD''
      then Resolves (Response True
             (Some (Object [(''rates'', Object [(''EUR'', Number (literal 9 10))])])))
      else if url = baseUrl @ ''USD'' then Resolves (Response False None)
      else Rejects)"

text \<open>The primary endpoint serves the table of USD; the request for EUR fails.\<close>

definition eur_lost :: network where
  "eur_lost url =
     (if url = baseUrl @ ''USD''
      then Resolves (Response True
             (Some (Object [(''rates'', Object [(''EUR'', Number (literal 9 10))])])))
      else Rejects)"

text \<open>The primary endpoint serves tables of USD and EUR that are not reciprocal.\<close>

definition both_tables :: network where
  "both_tables url =
     (if url = baseUrl @ ''USD''
      then Resolves (Response True
             (Some (Object [(''rates'', Object [(''USD'', Number (literal 1 1)),
                                               (''EUR'', Number (literal 3 4))])])))
      else if url = baseUrl @ ''EUR''
      then Resolves (Response True
             (Some (Object [(''rates'', Object [(''EUR'', Number (literal 1 1)),
                                               (''USD'', Number (literal 3 2))])])))
      else Rejects)"

text \<open>
  The primary endpoint serves a table of USD whose entry for EUR is zero, and a table
  of EUR.
\<close>

definition zero_entry :: network where
  "zero_entry url =
     (if url = baseUrl @ ''USD''
      then Resolves (Response True
             (Some (Object [(''rates'', Object [(''EUR'', Number (Finite False 0 (- 1074)))])])))
      else if url = baseUrl @ ''EUR''
      then Resolves (Response True
             (Some (Object [(''rates'', Object [(''USD'', Number (literal 2 1))])])))
      else Rejects)"

text \<open>The widget after a start without network: the fallback table is the cache.\<close>

definition started_offline :: "string \<Rightarrow> string \<Rightarrow> string \<Rightarrow> converter" where
  "started_offline amount from to = loadExchangeRates offline 0 (initElements amount from to)"





section \<open>Property assignment and the literals of the source\<close>

lemma lookup_assign_same: "lookup (assign kvs k v) k = v"
  by (induction kvs) (auto simp: lookup_def)

lemma lookup_assign_other: "k' \<noteq> k \<Longrightarrow> lookup (assign kvs k v) k' = lookup kvs k'"
  by (induction kvs) (auto simp: lookup_def)



lemma literal_85_100: "literal 85 100 = Finite False 7656119366529843 (- 53)"
  by code_simp

lemma literal_1_1: "literal 1 1 = js_one"
  by code_simp

lemma wellformed_USD: "wellformed_currency ''USD''"
  by (simp add: wellformed_currency_def ascii_letter_def)

lemma wellformed_codes:
  "wellformed_currency ''EUR''" "wellformed_currency ''GBP''" "wellformed_currency ''SEK''"
  "wellformed_currency ''XXX''"
  by (simp_all add: wellformed_currency_def ascii_letter_def)

lemma wellformed_not_inherited:
  "wellformed_currency c \<Longrightarrow> c \<notin> set inherited_names"
  by (auto simp: wellformed_currency_def inherited_names_def)

section \<open>Facts about loadExchangeRates\<close>

lemma fetch_fields [simp]:
  "exchangeRates (snd (fetch net url s)) = exchangeRates s"
  "console (snd (fetch net url s)) = console s"
  "resultContent_innerHTML (snd (fetch net url s)) = resultContent_innerHTML s"
  "result_error (snd (fetch net url s)) = result_error s"
  "requests (snd (fetch net url s)) = requests s @ [url]"
  by (simp_all add: fetch_def)

lemma loadExchangeRates_USD_console:
  "console (snd (loadExchangeRates_USD net now s)) = console s"
  by (simp add: loadExchangeRates_USD_def fetch_def split: prod.splits sum.splits fetch_result.splits)

lemma loadExchangeRates_EUR_console:
  "console (snd (loadExchangeRates_EUR net s)) = console s"
  by (simp add: loadExchangeRates_EUR_def fetch_def split: prod.splits sum.splits fetch_result.splits)

lemma loadExchangeRates_try_console:
  "console (snd (loadExchangeRates_try net now s)) = console s"
proof (cases "loadExchangeRates_USD net now s")
  case (Pair r s1)
  then show ?thesis
    using loadExchangeRates_USD_console [of net now s] loadExchangeRates_EUR_console [of net s1]
    by (simp add: loadExchangeRates_try_def split: option.splits)
qed

lemma fallback_USD_EUR:
  assumes "lookup (exchangeRates s) ''USD'' = Object fallbackRates"
  shows "getExchangeRate net ''USD'' ''EUR'' s = (Inr (Number (literal 85 100)), s)"
  using assms
  by (simp add: getExchangeRate_def direct_or_inverse_def)
     (simp add: lookup_def fallbackRates_def literal_85_100)

lemma loadExchangeRates_try_offline:
  "fst (loadExchangeRates_try offline now s) = Some NetworkError"
  by (simp add: loadExchangeRates_try_def loadExchangeRates_USD_def fetch_def offline_def)

lemma loadExchangeRates_try_malformed:
  assumes "net (baseUrl @ ''USD'') = Resolves (Response True None)"
  shows "fst (loadExchangeRates_try net now s) = Some SyntaxError"
  using assms
  by (simp add: loadExchangeRates_try_def loadExchangeRates_USD_def fetch_def response_json_def)

lemma loadExchangeRates_throws:
  assumes "loadExchangeRates_try net now s = (Some e, s')"
  shows "exchangeRates (loadExchangeRates net now s)
           = assign (exchangeRates s') ''USD'' (Object fallbackRates)"
  using assms
  by (simp add: loadExchangeRates_def loadFallbackRates_def showError_def console_error_def)

lemma literal_9_10: "literal 9 10 = Finite False 8106479329266893 (- 53)"
  by code_simp

lemma urls_differ:
  "baseUrl @ ''USD'' \<noteq> fallbackUrl @ ''?base=USD''"
  "baseUrl @ ''EUR'' \<noteq> fallbackUrl @ ''?base=USD''"
  "baseUrl @ ''EUR'' \<noteq> baseUrl @ ''USD''"
  by (simp_all add: baseUrl_def fallbackUrl_def)

lemma eur_lost_USD:
  "loadExchangeRates_USD eur_lost now s
     = (None, s\<lparr>requests := requests s @ [baseUrl @ ''USD''],
                 exchangeRates := assign (exchangeRates s) ''USD''
                    (Object [(''EUR'', Number (literal 9 10))]),
                 lastUpdate := Some now\<rparr>)"
  by (simp add: loadExchangeRates_USD_def fetch_def eur_lost_def response_json_def
        rates_or_data_def lookup_def)

lemma eur_lost_EUR: "fst (loadExchangeRates_EUR eur_lost s) = Some NetworkError"
  by (simp add: loadExchangeRates_EUR_def fetch_def eur_lost_def urls_differ)

lemma loadExchangeRates_USD_caches:
  assumes "loadExchangeRates_USD net now s = (None, s1)"
  shows "\<exists>response data usd.
           (net (baseUrl @ ''USD'') = Resolves response \<and> ok response
            \<or> net (fallbackUrl @ ''?base=USD'') = Resolves response)
           \<and> json response = Some data \<and> rates_or_data data = Inr usd
           \<and> exchangeRates s1 = assign (exchangeRates s) ''USD'' usd"
  using assms
  by (auto simp: loadExchangeRates_USD_def fetch_def response_json_def
           split: prod.splits sum.splits if_splits fetch_result.splits option.splits)

section \<open>Facts about getExchangeRate\<close>

lemma getExchangeRate_try_throws:
  assumes "fst (getExchangeRate_try net from s) = Some e"
  shows "getExchangeRate_try net from s = (Some e, s\<lparr>requests := requests s @ [baseUrl @ from]\<rparr>)"
  using assms
  by (auto simp: getExchangeRate_try_def fetch_def
           split: prod.splits sum.splits fetch_result.splits)

lemma getExchangeRate_try_offline:
  "fst (getExchangeRate_try offline from s) = Some NetworkError"
  by (simp add: getExchangeRate_try_def fetch_def offline_def)

lemma getExchangeRate_cached:
  assumes "ToBoolean (lookup (exchangeRates s) from)"
  shows "getExchangeRate net from to s = (direct_or_inverse (exchangeRates s) from to, s)"
  using assms by (simp add: getExchangeRate_def)

lemma getExchangeRate_fetch_fails:
  assumes "\<not> ToBoolean (lookup (exchangeRates s) from)"
    and "fst (getExchangeRate_try net from s) = Some e"
  shows "getExchangeRate net from to s
           = (if ToBoolean (lookup (exchangeRates s) ''USD'')
              then cross_rate (lookup (exchangeRates s) ''USD'') from to else Inl e,
              s\<lparr>requests := requests s @ [baseUrl @ from]\<rparr>)"
  using assms(1) getExchangeRate_try_throws [OF assms(2)]
  by (simp add: getExchangeRate_def)

lemma started_offline_rates:
  "exchangeRates (started_offline amount from to) = [(''USD'', Object fallbackRates)]"
  by (simp add: started_offline_def loadExchangeRates_def loadExchangeRates_try_def
        loadExchangeRates_USD_def fetch_def offline_def loadFallbackRates_def showError_def
        console_error_def initElements_def)

lemma literal_73_100: "literal 73 100 = Finite False 6575255455960924 (- 53)"
  by code_simp

lemma reciprocal_85_100:
  "js_div js_one (Finite False 7656119366529843 (- 53)) = Finite False 5298352502788819 (- 52)"
  by code_simp

lemma product_73_85:
  "js_mul (Finite False 6575255455960924 (- 53)) (Finite False 5298352502788819 (- 52))
     = Finite False 7735594654071676 (- 53)"
  by code_simp

lemma quotient_73_85:
  "js_div (Finite False 6575255455960924 (- 53)) (Finite False 7656119366529843 (- 53))
     = Finite False 7735594654071675 (- 53)"
  by code_simp

lemma js_mul_NaN [simp]: "js_mul x NaN = NaN"
  by (cases x) simp_all

lemma js_div_NaN [simp]: "js_div x NaN = NaN"
  by (cases x) simp_all

lemma literal_2_1: "literal 2 1 = Finite False 4503599627370496 (- 51)"
  by code_simp

lemma reciprocal_2:
  "js_div js_one (Finite False 4503599627370496 (- 51)) = Finite False 4503599627370496 (- 53)"
  by code_simp

lemma zero_entry_rates:
  "exchangeRates (loadExchangeRates zero_entry 0 (initElements ''1'' ''USD'' ''EUR''))
     = [(''USD'', Object [(''EUR'', Number (Finite False 0 (- 1074)))]),
        (''EUR'', Object [(''USD'', Number (literal 2 1))])]"
  by (simp add: loadExchangeRates_def loadExchangeRates_try_def loadExchangeRates_USD_def
        loadExchangeRates_EUR_def fetch_def zero_entry_def urls_differ response_json_def
        rates_or_data_def lookup_def initElements_def literal_2_1)



section \<open>The cache along a run\<close>



























section \<open>A number times its rounded reciprocal\<close>

text \<open>
  For a normal double \<open>r\<close> with \<open>2^-1022 \<le> |r| < 2^1022\<close>, the reciprocal \<open>1 / r\<close> is
  the quotient \<open>2^105 / m\<close> rounded to 53 bits, and \<open>r * (1 / r)\<close> rounds to \<open>1\<close> or to
  its predecessor \<open>1 - 2^-53\<close>.
\<close>

lemma bitlen_eq:
  "(2::int) ^ n \<le> m \<Longrightarrow> m < 2 ^ Suc n \<Longrightarrow> bitlen m = int (Suc n)"
proof (induction n arbitrary: m)
  case 0
  then have "m = 1" by simp
  then show ?case by (simp add: bitlen.simps)
next
  case (Suc n)
  have "(0::int) < 2 ^ Suc n"
    by simp
  with Suc.prems(1) have pos: "0 < m"
    by linarith
  have "(2::int) ^ n \<le> m div 2" "m div 2 < 2 ^ Suc n"
    using Suc.prems by simp_all
  then have "bitlen (m div 2) = int (Suc n)"
    by (rule Suc.IH)
  then show ?case
    using pos by (subst bitlen.simps) simp
qed

lemma round_near_one:
  assumes "2 ^ 105 - 2 ^ 52 < P" and "P < 2 ^ 105 + 2 ^ 52"
  shows "round_double False P (- 105) False = js_one
         \<or> round_double False P (- 105) False = Finite False 9007199254740991 (- 53)"
proof (cases "2 ^ 105 \<le> P")
  case True
  have len: "bitlen P = 106"
    using bitlen_eq [of 105 P] True assms(2) by simp
  define r where "r = P - 2 ^ 105"
  have r: "0 \<le> r" "r < 2 ^ 52" "P = 2 ^ 53 * 2 ^ 52 + r"
    using True assms(2) by (simp_all add: r_def)
  have q: "P div 2 ^ 53 = 2 ^ 52"
    using r by (intro int_div_pos_eq [where r = r]) simp_all
  have m: "P mod 2 ^ 53 = r"
    using r by (intro int_mod_pos_eq [where q = "2 ^ 52"]) simp_all
  show ?thesis
    using q m r(2) by (simp add: round_double_def len Let_def js_one_def)
next
  case False
  have len: "bitlen P = 105"
    using bitlen_eq [of 104 P] False assms(1) by simp
  define r where "r = P - (2 ^ 53 - 1) * 2 ^ 52"
  have r: "0 \<le> r" "r < 2 ^ 52" "P = 2 ^ 52 * (2 ^ 53 - 1) + r"
    using False assms(1) by (simp_all add: r_def)
  have q: "P div 2 ^ 52 = 2 ^ 53 - 1"
    using r by (intro int_div_pos_eq [where r = r]) simp_all
  have m: "P mod 2 ^ 52 = r"
    using r by (intro int_mod_pos_eq [where q = "2 ^ 53 - 1"]) simp_all
  show ?thesis
    using q m r(2) by (simp add: round_double_def len Let_def js_one_def)
qed

lemma reciprocal_power_of_two:
  assumes "- 1074 \<le> e" and "e \<le> 970"
  shows "js_div js_one (Finite neg 4503599627370496 e) = Finite neg 4503599627370496 (- 104 - e)"
proof -
  have "bitlen 4503599627370496 = 53"
    using bitlen_eq [of 52 4503599627370496] by simp
  moreover have "bitlen 166153499473114484112975882535043072 = 118"
    using bitlen_eq [of 117 166153499473114484112975882535043072] by simp
  ultimately show ?thesis
    using assms by (simp add: js_one_def round_double_def Let_def)
qed

lemma reciprocal_normal:
  assumes "2 ^ 52 < m" and "m < 2 ^ 53" and "- 1074 \<le> e" and "e \<le> 969"
  shows "\<exists>q. js_div js_one (Finite neg m e) = Finite neg q (- 105 - e)
             \<and> 2 ^ 105 - 2 ^ 52 < m * q \<and> m * q < 2 ^ 105 + 2 ^ 52"
proof -
  define Q where "Q = (2::int) ^ 169 div m"
  define \<sigma> where "\<sigma> = (2::int) ^ 169 mod m"
  define q where "q = Q div 2 ^ 64"
  define r where "r = Q mod 2 ^ 64"
  define up where "up \<longleftrightarrow> 2 ^ 63 < r \<or> (r = 2 ^ 63 \<and> (\<sigma> \<noteq> 0 \<or> odd q))"
  define q' where "q' = (if up then q + 1 else q)"
  have mpos: "0 < m"
    using assms(1) by simp
  have len_m: "bitlen m = 53"
    using bitlen_eq [of 52 m] assms by simp
  have split: "2 ^ 169 = Q * m + \<sigma>" "0 \<le> \<sigma>" "\<sigma> < m"
    using mpos by (simp_all add: Q_def \<sigma>_def)
  have split2: "Q = q * 2 ^ 64 + r" "0 \<le> r" "r < 2 ^ 64"
    by (simp_all add: q_def r_def)
  have Q_upper: "Q < 2 ^ 117"
  proof -
    have "Q * 2 ^ 52 \<le> Q * m"
      using assms(1) split(1,2) mpos
      by (intro mult_left_mono) (simp_all add: Q_def pos_imp_zdiv_nonneg_iff)
    also have "\<dots> \<le> 2 ^ 169"
      using split by simp
    finally have "Q * 2 ^ 52 \<le> 2 ^ 117 * 2 ^ 52" by simp
    then have "Q \<le> 2 ^ 117" by simp
    moreover have "Q \<noteq> 2 ^ 117"
    proof
      assume "Q = 2 ^ 117"
      then have "2 ^ 169 = 2 ^ 117 * m + \<sigma>" using split(1) by simp
      moreover have "(2::int) ^ 117 * (2 ^ 52 + 1) \<le> 2 ^ 117 * m"
        using assms(1) by (intro mult_left_mono) simp_all
      ultimately show False using split(2) by simp
    qed
    ultimately show ?thesis by simp
  qed
  have Q_lower: "2 ^ 116 \<le> Q"
  proof (rule ccontr)
    assume "\<not> 2 ^ 116 \<le> Q"
    then have "Q + 1 \<le> 2 ^ 116" by simp
    then have "(Q + 1) * m \<le> 2 ^ 116 * m"
      using mpos by (intro mult_right_mono) simp_all
    also have "\<dots> < 2 ^ 116 * 2 ^ 53"
      using assms(2) by (intro mult_strict_left_mono) simp_all
    finally have "Q * m + m < 2 ^ 169"
      by (simp add: algebra_simps)
    then show False using split by simp
  qed
  have len_Q: "bitlen Q = 117"
    using bitlen_eq [of 116 Q] Q_lower Q_upper by simp
  have qpos: "0 \<le> q"
    using Q_lower by (simp add: q_def pos_imp_zdiv_nonneg_iff)
  define \<rho> where "\<rho> = 2 ^ 105 - q * m"
  have rho: "\<rho> * 2 ^ 64 = r * m + \<sigma>"
  proof -
    have "2 ^ 105 * (2::int) ^ 64 = q * m * 2 ^ 64 + (r * m + \<sigma>)"
      using split(1) split2(1) by (simp add: algebra_simps)
    then show ?thesis by (simp add: \<rho>_def algebra_simps)
  qed
  have near: "2 * \<bar>q' * m - 2 ^ 105\<bar> \<le> m"
  proof (cases up)
    case True
    then have "2 ^ 63 \<le> r" by (auto simp: up_def)
    then have "2 ^ 63 * m \<le> r * m"
      using mpos by (intro mult_right_mono) simp_all
    then have "2 ^ 63 * m \<le> \<rho> * 2 ^ 64"
      using rho split(2) by simp
    then have "m \<le> 2 * \<rho>" by simp
    moreover have "\<rho> < m"
    proof -
      have "r * m \<le> (2 ^ 64 - 1) * m"
        using split2(3) mpos by (intro mult_right_mono) simp_all
      then have "\<rho> * 2 ^ 64 < 2 ^ 64 * m"
        using rho split(3) by (simp add: algebra_simps)
      then show ?thesis by simp
    qed
    moreover have "q' * m - 2 ^ 105 = m - \<rho>"
      using True by (simp add: q'_def \<rho>_def algebra_simps)
    ultimately show ?thesis by simp
  next
    case False
    then have le: "r \<le> 2 ^ 63" and tie: "r = 2 ^ 63 \<longrightarrow> \<sigma> = 0"
      by (auto simp: up_def)
    have "r * m + \<sigma> \<le> 2 ^ 63 * m"
    proof (cases "r = 2 ^ 63")
      case True
      then show ?thesis using tie by simp
    next
      case False
      then have "r + 1 \<le> 2 ^ 63" using le by simp
      then have "(r + 1) * m \<le> 2 ^ 63 * m"
        using mpos by (intro mult_right_mono) simp_all
      then show ?thesis using split(3) by (simp add: algebra_simps)
    qed
    then have "\<rho> * 2 ^ 64 \<le> 2 ^ 63 * m"
      using rho by simp
    then have "2 * \<rho> \<le> m" by simp
    moreover have "0 \<le> \<rho>"
    proof -
      have "0 \<le> r * m + \<sigma>"
        using split2(2) split(2) mpos by simp
      then have "0 \<le> \<rho> * 2 ^ 64" using rho by simp
      then show ?thesis by simp
    qed
    moreover have "q' * m - 2 ^ 105 = - \<rho>"
      using False by (simp add: q'_def \<rho>_def)
    ultimately show ?thesis by simp
  qed
  then have "2 * \<bar>m * q' - 2 ^ 105\<bar> < 2 ^ 53"
    using assms(2) by (simp add: mult.commute)
  then have bounds: "2 ^ 105 - 2 ^ 52 < m * q'" "m * q' < 2 ^ 105 + 2 ^ 52"
    by (simp_all add: abs_less_iff)
  have q'_small: "q' \<noteq> 2 ^ 53"
  proof
    assume "q' = 2 ^ 53"
    moreover have "(2 ^ 52 + 1) * (2::int) ^ 53 \<le> m * 2 ^ 53"
      using assms(1) by (intro mult_right_mono) simp_all
    ultimately show False using bounds(2) by simp
  qed
  have "js_div js_one (Finite neg m e) = round_double neg Q (- 169 - e) (\<sigma> \<noteq> 0)"
    using mpos by (simp add: js_one_def len_m Q_def \<sigma>_def Let_def)
  also have "\<dots> = Finite neg q' (- 105 - e)"
  proof -
    have "max (- 169 - e + 117 - 53) (- 1074) = - 105 - e"
      using assms(4) by simp
    moreover have "nat (- 105 - e - (- 169 - e)) = 64"
      by simp
    moreover have "\<not> - 105 - e \<le> - 169 - e" "\<not> 971 < - 105 - e"
      using assms(3) by simp_all
    ultimately show ?thesis
      using q'_small
      by (simp only: round_double_def len_Q Let_def q_def r_def up_def q'_def)
         (simp add: q_def r_def up_def q'_def)
  qed
  finally have "js_div js_one (Finite neg m e) = Finite neg q' (- 105 - e)" .
  then show ?thesis
    using bounds by blast
qed

lemma reciprocal_product:
  assumes "2 ^ 52 \<le> m" and "m < 2 ^ 53" and "- 1074 \<le> e" and "e \<le> 969"
  shows "js_mul (Finite neg m e) (js_div js_one (Finite neg m e)) = js_one
         \<or> js_mul (Finite neg m e) (js_div js_one (Finite neg m e))
             = Finite False 9007199254740991 (- 53)"
proof (cases "m = 2 ^ 52")
  case True
  have "bitlen 20282409603651670423947251286016 = 105"
    using bitlen_eq [of 104 20282409603651670423947251286016] by simp
  then have "round_double False 20282409603651670423947251286016 (- 104) False = js_one"
    by (simp add: round_double_def Let_def js_one_def)
  then show ?thesis
    using True assms reciprocal_power_of_two [of e neg] by simp
next
  case False
  then have "2 ^ 52 < m"
    using assms(1) by simp
  then obtain q where q: "js_div js_one (Finite neg m e) = Finite neg q (- 105 - e)"
    and bounds: "2 ^ 105 - 2 ^ 52 < m * q" "m * q < 2 ^ 105 + 2 ^ 52"
    using reciprocal_normal [of m e neg] assms by blast
  have "m \<noteq> 0" "q \<noteq> 0"
    using bounds(1) by auto
  then have "js_mul (Finite neg m e) (Finite neg q (- 105 - e))
      = round_double False (m * q) (- 105) False"
    by simp
  then show ?thesis
    using round_near_one [OF bounds] q by simp
qed

lemma literal_3_4: "literal 3 4 = Finite False 6755399441055744 (- 53)"
  by code_simp

lemma literal_3_2: "literal 3 2 = Finite False 6755399441055744 (- 52)"
  by code_simp

lemma literal_9_8: "literal 9 8 = Finite False 5066549580791808 (- 52)"
  by code_simp

lemma product_3_4_3_2:
  "js_mul (Finite False 6755399441055744 (- 53)) (Finite False 6755399441055744 (- 52))
     = Finite False 5066549580791808 (- 52)"
  by code_simp

lemma product_2_half:
  "js_mul (Finite False 4503599627370496 (- 51)) (Finite False 4503599627370496 (- 53)) = js_one"
  by code_simp

lemma both_tables_rates:
  "exchangeRates (loadExchangeRates both_tables 0 (initElements ''1'' ''USD'' ''EUR''))
     = [(''USD'', Object [(''USD'', Number (literal 1 1)), (''EUR'', Number (literal 3 4))]),
        (''EUR'', Object [(''EUR'', Number (literal 1 1)), (''USD'', Number (literal 3 2))])]"
  by (simp add: loadExchangeRates_def loadExchangeRates_try_def loadExchangeRates_USD_def
        loadExchangeRates_EUR_def fetch_def both_tables_def urls_differ response_json_def
        rates_or_data_def lookup_def initElements_def)

section \<open>Rejected amounts\<close>

text \<open>
  Claim C6. When the parsed amount is \<open>NaN\<close> (a non-numeric input), zero or negative,
  \<open>convertCurrency\<close> shows the message \<open>Please enter a valid amount\<close> and returns: no
  request is made, the rate cache is left as it was, and the outcome is the same
  whatever the cache holds and whatever the network would answer.
\<close>

theorem convertCurrency_rejects_amount:
  assumes "parseFloat (amountInput s) = NaN \<or> js_le_zero (parseFloat (amountInput s))"
  shows "convertCurrency parseFloat net s
           = (None, showError ''Please enter a valid amount'' s)
         \<and> requests (snd (convertCurrency parseFloat net s)) = requests s
         \<and> exchangeRates (snd (convertCurrency parseFloat net s)) = exchangeRates s
         \<and> resultContent_innerHTML (snd (convertCurrency parseFloat net s))
             = ErrorMessage ''Please enter a valid amount''
         \<and> result_error (snd (convertCurrency parseFloat net s))
         \<and> (\<forall>rates net'.
               convertCurrency parseFloat net' (s\<lparr>exchangeRates := rates\<rparr>)
                 = (None, (showError ''Please enter a valid amount'' s)
                            \<lparr>exchangeRates := rates\<rparr>))"
proof -
  have rejected: "\<not> ToBoolean (Number (parseFloat (amountInput s)))
                   \<or> js_le_zero (parseFloat (amountInput s))"
    using assms by (cases "parseFloat (amountInput s)") auto
  then have "convertCurrency parseFloat net' (s\<lparr>exchangeRates := rates\<rparr>)
               = (None, showError ''Please enter a valid amount'' (s\<lparr>exchangeRates := rates\<rparr>))"
    for net' rates
    by (simp add: convertCurrency_def)
  moreover have "convertCurrency parseFloat net s
                   = (None, showError ''Please enter a valid amount'' s)"
    using rejected by (simp add: convertCurrency_def)
  ultimately show ?thesis
    by (simp add: showError_def)
qed

theorem convertCurrency_rejects_amount_witness:
  "js_le_zero (Finite False 0 (- 1074))
   \<and> convertCurrency (\<lambda>text. Finite False 0 (- 1074)) (\<lambda>url. Rejects)
        (initElements ''0'' ''USD'' ''EUR'')
       = (None, showError ''Please enter a valid amount'' (initElements ''0'' ''USD'' ''EUR''))"
  using convertCurrency_rejects_amount
    [of "\<lambda>text. Finite False 0 (- 1074)" "initElements ''0'' ''USD'' ''EUR''" "\<lambda>url. Rejects"]
  by simp

section \<open>Converting a currency into itself\<close>

text \<open>
  Claim C7. For a positive amount \<open>a\<close> (not \<open>NaN\<close> and not \<open>a <= 0\<close>) and the same
  well-formed currency code \<open>c\<close> in both fields, \<open>convertCurrency\<close> shows the result
  with amount \<open>a\<close> and rate \<open>1\<close> through \<open>showResult(amount, from, to, 1)\<close>: no request
  is made, and the cache is neither changed nor looked at (the outcome is the same for
  every cache and every network).
\<close>

theorem convertCurrency_same_currency:
  assumes "parseFloat (amountInput s) = a" and "a \<noteq> NaN" and "\<not> js_le_zero a"
    and "fromCurrency s = c" and "toCurrency s = c" and "wellformed_currency c"
  shows "convertCurrency parseFloat net s
           = (None, s\<lparr>loading_show := False, resultContent_display := ''block'',
                     result_error := False, result_show := True,
                     resultContent_innerHTML := ResultMessage a c js_one c,
                     rateInfo_display := ''block''\<rparr>)
         \<and> requests (snd (convertCurrency parseFloat net s)) = requests s
         \<and> exchangeRates (snd (convertCurrency parseFloat net s)) = exchangeRates s
         \<and> (\<forall>rates net'.
               snd (convertCurrency parseFloat net' (s\<lparr>exchangeRates := rates\<rparr>))
                 = (snd (convertCurrency parseFloat net s))\<lparr>exchangeRates := rates\<rparr>)"
proof -
  have truthy: "ToBoolean (Number a)"
    using assms(2,3) by (cases a) auto
  have "convertCurrency parseFloat net' (s\<lparr>exchangeRates := rates\<rparr>)
          = (None, s\<lparr>exchangeRates := rates, loading_show := False, resultContent_display := ''block'',
                     result_error := False, result_show := True,
                     resultContent_innerHTML := ResultMessage a c js_one c,
                     rateInfo_display := ''block''\<rparr>)" for net' rates
    using assms truthy by (simp add: convertCurrency_def showResult_def)
  moreover have "convertCurrency parseFloat net s
          = (None, s\<lparr>loading_show := False, resultContent_display := ''block'',
                     result_error := False, result_show := True,
                     resultContent_innerHTML := ResultMessage a c js_one c,
                     rateInfo_display := ''block''\<rparr>)"
    using assms truthy by (simp add: convertCurrency_def showResult_def)
  ultimately show ?thesis by simp
qed

theorem convertCurrency_same_currency_witness:
  "wellformed_currency ''USD'' \<and> \<not> js_le_zero js_one \<and>
   resultContent_innerHTML (snd (convertCurrency (\<lambda>text. js_one) offline (initElements ''1'' ''USD'' ''USD'')))
     = ResultMessage js_one ''USD'' js_one ''USD''"
  using convertCurrency_same_currency
    [of "\<lambda>text. js_one" "initElements ''1'' ''USD'' ''USD''" js_one "''USD''" offline]
  by (simp add: wellformed_USD js_one_def initElements_def)

section \<open>The fallback table\<close>

text \<open>
  Claim C5. When the \<open>try\<close> block of \<open>loadExchangeRates\<close> throws (a rejected
  request, a body that is not JSON, a \<open>null\<close> body), the method returns normally with
  the fixed fallback table cached for USD, whose keys are exactly EUR, GBP, JPY, AUD,
  CAD, CHF, CNY, INR, TRY and USD; the warning is shown and the error logged; and in that
  state \<open>getExchangeRate('USD', 'EUR')\<close> returns the literal \<open>0.85\<close> without a request.
\<close>

theorem loadExchangeRates_fallback:
  assumes "fst (loadExchangeRates_try net now s) = Some e"
  shows "lookup (exchangeRates (loadExchangeRates net now s)) ''USD'' = Object fallbackRates
         \<and> set (map fst fallbackRates)
             = {''EUR'', ''GBP'', ''JPY'', ''AUD'', ''CAD'', ''CHF'', ''CNY'', ''INR'', ''TRY'', ''USD''}
         \<and> resultContent_innerHTML (loadExchangeRates net now s)
             = ErrorMessage ''Failed to load exchange rates. Using fallback rates.''
         \<and> result_error (loadExchangeRates net now s)
         \<and> console (loadExchangeRates net now s)
             = console s @ [(''Error loading exchange rates:'', e)]
         \<and> (\<forall>net'. getExchangeRate net' ''USD'' ''EUR'' (loadExchangeRates net now s)
                     = (Inr (Number (literal 85 100)), loadExchangeRates net now s))"
proof -
  obtain s' where thrown: "loadExchangeRates_try net now s = (Some e, s')"
    using assms by (cases "loadExchangeRates_try net now s") simp
  have after: "loadExchangeRates net now s
      = loadFallbackRates
          (showError ''Failed to load exchange rates. Using fallback rates.''
             (console_error ''Error loading exchange rates:'' e s'))"
    by (simp add: loadExchangeRates_def thrown)
  have usd: "lookup (exchangeRates (loadExchangeRates net now s)) ''USD'' = Object fallbackRates"
    by (simp add: after loadFallbackRates_def lookup_assign_same)
  have keys: "set (map fst fallbackRates)
      = {''EUR'', ''GBP'', ''JPY'', ''AUD'', ''CAD'', ''CHF'', ''CNY'', ''INR'', ''TRY'', ''USD''}"
    by (simp add: fallbackRates_def)
  have "console s' = console s"
    using loadExchangeRates_try_console [of net now s] by (simp add: thrown)
  then have log: "console (loadExchangeRates net now s)
      = console s @ [(''Error loading exchange rates:'', e)]"
    by (simp add: after loadFallbackRates_def showError_def console_error_def)
  have shown: "resultContent_innerHTML (loadExchangeRates net now s)
      = ErrorMessage ''Failed to load exchange rates. Using fallback rates.''"
    "result_error (loadExchangeRates net now s)"
    by (simp_all add: after loadFallbackRates_def showError_def)
  show ?thesis
    using usd keys log shown fallback_USD_EUR [OF usd] by simp
qed

theorem loadExchangeRates_fallback_witness:
  "fst (loadExchangeRates_try offline 0 (initElements ''1'' ''USD'' ''EUR'')) = Some NetworkError
   \<and> lookup (exchangeRates (loadExchangeRates offline 0 (initElements ''1'' ''USD'' ''EUR''))) ''USD''
       = Object fallbackRates
   \<and> fst (getExchangeRate offline ''USD'' ''EUR''
             (loadExchangeRates offline 0 (initElements ''1'' ''USD'' ''EUR'')))
       = Inr (Number (literal 85 100))"
  using loadExchangeRates_fallback
    [of offline 0 "initElements ''1'' ''USD'' ''EUR''" NetworkError]
  by (simp add: loadExchangeRates_try_offline)

section \<open>The secondary endpoint\<close>

text \<open>
  Claim C4, as amended. When the primary endpoint answers the request for USD with a
  response that is not \<open>ok\<close>, the secondary endpoint's response parses to an object
  \<open>data\<close>, and the request for EUR that follows does not throw (it resolves, and when it
  is \<open>ok\<close> its body parses to a value other than \<open>null\<close>), then \<open>loadExchangeRates\<close>
  ends without an exception, the cached table of USD is \<open>data.rates || data\<close> of the
  secondary response (the wrapper's \<open>rates\<close>, or the bare mapping), nothing is logged
  and no warning is shown: the fallback table is not used.

  As the claim states it, for every start in which the primary endpoint fails and the
  secondary succeeds, it does not hold: under \<open>primary_lost\<close> the secondary endpoint
  delivers a table, the request for EUR is rejected, and the cache ends with the
  fallback table.
\<close>

theorem loadExchangeRates_secondary:
  assumes "net (baseUrl @ ''USD'') = Resolves primary" and "\<not> ok primary"
    and "net (fallbackUrl @ ''?base=USD'') = Resolves secondary"
    and "json secondary = Some (Object kvs)"
    and "net (baseUrl @ ''EUR'') = Resolves eur"
    and "ok eur \<longrightarrow> (\<exists>eurData t. json eur = Some eurData \<and> rates_or_data eurData = Inr t)"
  shows "fst (loadExchangeRates_try net now s) = None
         \<and> lookup (exchangeRates (loadExchangeRates net now s)) ''USD''
             = (if ToBoolean (lookup kvs ''rates'') then lookup kvs ''rates'' else Object kvs)
         \<and> console (loadExchangeRates net now s) = console s
         \<and> resultContent_innerHTML (loadExchangeRates net now s) = resultContent_innerHTML s
         \<and> requests (loadExchangeRates net now s)
             = requests s @ [baseUrl @ ''USD'', fallbackUrl @ ''?base=USD'', baseUrl @ ''EUR'']"
proof -
  define usd where "usd = (if ToBoolean (lookup kvs ''rates'') then lookup kvs ''rates'' else Object kvs)"
  define s1 where "s1 = s\<lparr>requests := requests s @ [baseUrl @ ''USD'', fallbackUrl @ ''?base=USD''],
                           exchangeRates := assign (exchangeRates s) ''USD'' usd,
                           lastUpdate := Some now\<rparr>"
  have first: "loadExchangeRates_USD net now s = (None, s1)"
    using assms(1-4)
    by (simp add: loadExchangeRates_USD_def fetch_def response_json_def rates_or_data_def
          usd_def s1_def)
  show ?thesis
  proof (cases "ok eur")
    case False
    then have "loadExchangeRates_EUR net s1 = (None, s1\<lparr>requests := requests s1 @ [baseUrl @ ''EUR'']\<rparr>)"
      using assms(5) by (simp add: loadExchangeRates_EUR_def fetch_def)
    then have "loadExchangeRates_try net now s = (None, s1\<lparr>requests := requests s1 @ [baseUrl @ ''EUR'']\<rparr>)"
      by (simp add: loadExchangeRates_try_def first)
    then show ?thesis
      by (simp add: loadExchangeRates_def s1_def lookup_assign_same usd_def)
  next
    case True
    then obtain eurData t where "json eur = Some eurData" "rates_or_data eurData = Inr t"
      using assms(6) by blast
    then have "loadExchangeRates_EUR net s1
        = (None, s1\<lparr>requests := requests s1 @ [baseUrl @ ''EUR''],
                     exchangeRates := assign (exchangeRates s1) ''EUR'' t\<rparr>)"
      using assms(5) True by (simp add: loadExchangeRates_EUR_def fetch_def response_json_def)
    then have "loadExchangeRates_try net now s
        = (None, s1\<lparr>requests := requests s1 @ [baseUrl @ ''EUR''],
                     exchangeRates := assign (exchangeRates s1) ''EUR'' t\<rparr>)"
      by (simp add: loadExchangeRates_try_def first)
    then show ?thesis
      by (simp add: loadExchangeRates_def s1_def lookup_assign_same lookup_assign_other usd_def)
  qed
qed

theorem loadExchangeRates_secondary_witness:
  "\<not> ok (Response False None)
   \<and> lookup (exchangeRates (loadExchangeRates primary_unavailable 0 (initElements ''1'' ''USD'' ''EUR'')))
       ''USD'' = Object [(''EUR'', Number (literal 9 10))]
   \<and> console (loadExchangeRates primary_unavailable 0 (initElements ''1'' ''USD'' ''EUR'')) = []"
  using loadExchangeRates_secondary
    [of primary_unavailable "Response False None"
        "Response True (Some (Object [(''rates'', Object [(''EUR'', Number (literal 9 10))])]))"
        "[(''rates'', Object [(''EUR'', Number (literal 9 10))])]"
        "Response False None" 0 "initElements ''1'' ''USD'' ''EUR''"]
  by (simp add: primary_unavailable_def urls_differ lookup_def initElements_def)

theorem loadExchangeRates_secondary_counterexample:
  "primary_lost (baseUrl @ ''USD'') = Resolves (Response False None)
   \<and> primary_lost (fallbackUrl @ ''?base=USD'')
       = Resolves (Response True
           (Some (Object [(''rates'', Object [(''EUR'', Number (literal 9 10))])])))
   \<and> lookup (exchangeRates (loadExchangeRates primary_lost 0 (initElements ''1'' ''USD'' ''EUR'')))
       ''USD'' = Object fallbackRates
   \<and> Object fallbackRates \<noteq> Object [(''EUR'', Number (literal 9 10))]
   \<and> resultContent_innerHTML (loadExchangeRates primary_lost 0 (initElements ''1'' ''USD'' ''EUR''))
       = ErrorMessage ''Failed to load exchange rates. Using fallback rates.''"
proof -
  have "loadExchangeRates_try primary_lost 0 (initElements ''1'' ''USD'' ''EUR'')
          = (Some NetworkError,
             (initElements ''1'' ''USD'' ''EUR'')
               \<lparr>requests := [baseUrl @ ''USD'', fallbackUrl @ ''?base=USD'', baseUrl @ ''EUR''],
                exchangeRates := [(''USD'', Object [(''EUR'', Number (literal 9 10))])],
                lastUpdate := Some 0\<rparr>)"
    by (simp add: loadExchangeRates_try_def loadExchangeRates_USD_def loadExchangeRates_EUR_def
          fetch_def primary_lost_def urls_differ response_json_def rates_or_data_def lookup_def
          initElements_def)
  then show ?thesis
    by (simp add: loadExchangeRates_def loadFallbackRates_def showError_def console_error_def
          lookup_def primary_lost_def urls_differ fallbackRates_def)
qed


section \<open>A failure after the table of USD was cached\<close>

text \<open>
  Claim C10. When the first part of the \<open>try\<close> block has fetched and cached a table of
  USD (\<open>loadExchangeRates_USD_caches\<close> says which) and the second part then throws, in
  the request for EUR or in reading its body, the \<open>catch\<close> block assigns the fallback
  table to \<open>exchangeRates['USD']\<close>: the cache is the one the first part left, with the
  fetched table of USD replaced by the fallback table, and the warning is shown.
\<close>

theorem loadExchangeRates_drops_fetched_USD:
  assumes "loadExchangeRates_USD net now s = (None, s1)"
    and "fst (loadExchangeRates_EUR net s1) = Some e"
  shows "lookup (exchangeRates (loadExchangeRates net now s)) ''USD'' = Object fallbackRates
         \<and> exchangeRates (loadExchangeRates net now s)
             = assign (exchangeRates s1) ''USD'' (Object fallbackRates)
         \<and> resultContent_innerHTML (loadExchangeRates net now s)
             = ErrorMessage ''Failed to load exchange rates. Using fallback rates.''"
proof -
  obtain s2 where eur: "loadExchangeRates_EUR net s1 = (Some e, s2)"
    using assms(2) by (cases "loadExchangeRates_EUR net s1") simp
  have unchanged: "exchangeRates s2 = exchangeRates s1"
    using eur
    by (auto simp: loadExchangeRates_EUR_def fetch_def
             split: prod.splits sum.splits if_splits fetch_result.splits)
  have thrown: "loadExchangeRates_try net now s = (Some e, s2)"
    by (simp add: loadExchangeRates_try_def assms(1) eur)
  have "exchangeRates (loadExchangeRates net now s)
          = assign (exchangeRates s1) ''USD'' (Object fallbackRates)"
    using loadExchangeRates_throws [OF thrown] unchanged by simp
  moreover have "resultContent_innerHTML (loadExchangeRates net now s)
             = ErrorMessage ''Failed to load exchange rates. Using fallback rates.''"
    by (simp add: loadExchangeRates_def thrown loadFallbackRates_def showError_def)
  ultimately show ?thesis
    by (simp add: lookup_assign_same)
qed

theorem loadExchangeRates_drops_fetched_USD_witness:
  "lookup (exchangeRates (snd (loadExchangeRates_USD eur_lost 0 (initElements ''1'' ''USD'' ''EUR''))))
      ''USD'' = Object [(''EUR'', Number (literal 9 10))]
   \<and> fst (loadExchangeRates_USD eur_lost 0 (initElements ''1'' ''USD'' ''EUR'')) = None
   \<and> lookup (exchangeRates (loadExchangeRates eur_lost 0 (initElements ''1'' ''USD'' ''EUR'')))
      ''USD'' = Object fallbackRates"
  using loadExchangeRates_drops_fetched_USD
    [OF eur_lost_USD eur_lost_EUR, of 0 "initElements ''1'' ''USD'' ''EUR''"]
  by (simp add: eur_lost_USD lookup_assign_same)

section \<open>The cross rate through USD\<close>

text \<open>
  Claim C1, as amended. For well-formed currency codes \<open>from\<close> and \<open>to\<close>: when the
  cache has no table for \<open>from\<close> and the \<open>try\<close> block of \<open>getExchangeRate\<close> throws (the request for the table of \<open>from\<close> is rejected, or its
  body cannot be read), then: if the cached table of USD has Number entries \<open>f\<close> for
  \<open>from\<close> and \<open>t\<close> for \<open>to\<close>, the method returns \<open>t * (1 / f)\<close>, the product with the
  reciprocal in double arithmetic, after that one failed request and with the cache
  unchanged; and if no table of USD is cached, it rethrows the error of the \<open>try\<close>
  block.

  The claim states the result as the quotient \<open>table[USD][to] / table[USD][from]\<close>.
  The product with the rounded reciprocal can differ from the rounded quotient in the
  last bit: with the fallback table, from EUR to GBP, the method returns
  \<open>0.8588235294117648\<close>, and \<open>0.73 / 0.85\<close> is \<open>0.8588235294117647\<close>.
\<close>

theorem getExchangeRate_cross_rate:
  assumes "wellformed_currency from" and "wellformed_currency to"
    and "lookup (exchangeRates s) from = Undefined"
    and "fst (getExchangeRate_try net from s) = Some e"
  shows "(\<forall>usd f t.
            lookup (exchangeRates s) ''USD'' = Object usd
            \<and> map_of usd from = Some (Number f) \<and> map_of usd to = Some (Number t)
            \<longrightarrow> getExchangeRate net from to s
                  = (Inr (Number (js_mul t (js_div js_one f))),
                     s\<lparr>requests := requests s @ [baseUrl @ from]\<rparr>))
         \<and> (lookup (exchangeRates s) ''USD'' = Undefined
            \<longrightarrow> getExchangeRate net from to s
                  = (Inl e, s\<lparr>requests := requests s @ [baseUrl @ from]\<rparr>))"
  using getExchangeRate_fetch_fails [of s "from" net e to] assms
  by (simp add: cross_rate_def lookup_def)

theorem getExchangeRate_cross_rate_witness:
  "wellformed_currency ''EUR'' \<and> wellformed_currency ''GBP''
   \<and> lookup (exchangeRates (started_offline ''1'' ''EUR'' ''GBP'')) ''EUR'' = Undefined
   \<and> fst (getExchangeRate_try offline ''EUR'' (started_offline ''1'' ''EUR'' ''GBP'')) = Some NetworkError
   \<and> fst (getExchangeRate offline ''EUR'' ''GBP'' (started_offline ''1'' ''EUR'' ''GBP''))
       = Inr (Number (js_mul (literal 73 100) (js_div js_one (literal 85 100))))
   \<and> fst (getExchangeRate offline ''EUR'' ''GBP'' (initElements ''1'' ''EUR'' ''GBP''))
       = Inl NetworkError"
proof -
  have a: "lookup (exchangeRates (started_offline ''1'' ''EUR'' ''GBP'')) ''EUR'' = Undefined"
    by (simp add: started_offline_rates lookup_def)
  have b: "lookup (exchangeRates (initElements ''1'' ''EUR'' ''GBP'')) ''EUR'' = Undefined"
    by (simp add: initElements_def lookup_def)
  show ?thesis
    using getExchangeRate_cross_rate
        [OF wellformed_codes(1) wellformed_codes(2) a getExchangeRate_try_offline]
      getExchangeRate_cross_rate
        [OF wellformed_codes(1) wellformed_codes(2) b getExchangeRate_try_offline]
    by (simp add: a getExchangeRate_try_offline started_offline_rates lookup_def fallbackRates_def
          initElements_def wellformed_codes)
qed

theorem getExchangeRate_cross_rate_counterexample:
  "wellformed_currency ''EUR'' \<and> wellformed_currency ''GBP''
   \<and> lookup (exchangeRates (started_offline ''1'' ''EUR'' ''GBP'')) ''EUR'' = Undefined
   \<and> lookup (exchangeRates (started_offline ''1'' ''EUR'' ''GBP'')) ''USD'' = Object fallbackRates
   \<and> map_of fallbackRates ''EUR'' = Some (Number (literal 85 100))
   \<and> map_of fallbackRates ''GBP'' = Some (Number (literal 73 100))
   \<and> fst (getExchangeRate_try offline ''EUR'' (started_offline ''1'' ''EUR'' ''GBP'')) = Some NetworkError
   \<and> fst (getExchangeRate offline ''EUR'' ''GBP'' (started_offline ''1'' ''EUR'' ''GBP''))
       = Inr (Number (Finite False 7735594654071676 (- 53)))
   \<and> js_div (literal 73 100) (literal 85 100) = Finite False 7735594654071675 (- 53)"
proof -
  have "\<not> ToBoolean (lookup (exchangeRates (started_offline ''1'' ''EUR'' ''GBP'')) ''EUR'')"
    by (simp add: started_offline_rates lookup_def)
  then have "fst (getExchangeRate offline ''EUR'' ''GBP'' (started_offline ''1'' ''EUR'' ''GBP''))
       = Inr (Number (Finite False 7735594654071676 (- 53)))"
    using getExchangeRate_fetch_fails [OF _ getExchangeRate_try_offline]
    by (simp add: started_offline_rates lookup_def cross_rate_def fallbackRates_def
          literal_85_100 literal_73_100 reciprocal_85_100 product_73_85
          del: js_mul.simps js_div.simps)
  then show ?thesis
    by (simp add: started_offline_rates lookup_def fallbackRates_def getExchangeRate_try_offline
          literal_85_100 literal_73_100 quotient_73_85 wellformed_codes
          del: js_mul.simps js_div.simps)
qed

section \<open>The direct entry and the inverse\<close>

text \<open>
  Claim C2, as amended. For well-formed currency codes \<open>from\<close> and \<open>to\<close>: when the
  cache holds a table for \<open>from\<close>, \<open>getExchangeRate\<close> makes no request and leaves the
  state as it is; it returns \<open>table[from][to]\<close> when that entry is truthy (present, not
  zero and not \<open>NaN\<close>); otherwise, when a table is cached for \<open>to\<close>, it returns
  \<open>1 / table[to][from]\<close> (\<open>NaN\<close> when that entry is missing, a \<open>TypeError\<close> when the
  entry is an object that cannot be converted to a number), and when no table is cached
  for \<open>to\<close> it throws a \<open>TypeError\<close>.

  As the claim states it, the entry is returned whenever present and the inverse
  otherwise. With the fallback table, from USD to SEK, the entry is missing and no table
  is cached for SEK: the method throws. With an entry \<open>0\<close> for EUR in the table of USD
  and a table of EUR whose entry for USD is \<open>2\<close>, the entry is present and the method
  returns \<open>0.5\<close>.
\<close>

theorem getExchangeRate_direct_or_inverse:
  assumes "wellformed_currency from" and "wellformed_currency to"
    and "lookup (exchangeRates s) from = Object table"
  shows "getExchangeRate net from to s
           = (if ToBoolean (lookup table to) then Inr (lookup table to)
              else (case lookup (exchangeRates s) to of
                      Object back \<Rightarrow>
                        (case ToNumber (lookup back from) of
                           Inl e \<Rightarrow> Inl e
                         | Inr n \<Rightarrow> Inr (Number (js_div js_one n)))
                    | Number n \<Rightarrow> Inr (Number NaN)
                    | Undefined \<Rightarrow> Inl TypeError
                    | Null \<Rightarrow> Inl TypeError),
              s)"
  using assms
  by (simp add: getExchangeRate_def direct_or_inverse_def split: jsval.splits)

theorem getExchangeRate_direct_or_inverse_witness:
  "wellformed_currency ''USD'' \<and> wellformed_currency ''EUR''
   \<and> lookup (exchangeRates (started_offline ''1'' ''USD'' ''EUR'')) ''USD'' = Object fallbackRates
   \<and> getExchangeRate offline ''USD'' ''EUR'' (started_offline ''1'' ''USD'' ''EUR'')
       = (Inr (Number (literal 85 100)), started_offline ''1'' ''USD'' ''EUR'')"
proof -
  have a: "lookup (exchangeRates (started_offline ''1'' ''USD'' ''EUR'')) ''USD'' = Object fallbackRates"
    by (simp add: started_offline_rates lookup_def)
  have "getExchangeRate offline ''USD'' ''EUR'' (started_offline ''1'' ''USD'' ''EUR'')
       = (Inr (Number (literal 85 100)), started_offline ''1'' ''USD'' ''EUR'')"
    using getExchangeRate_direct_or_inverse [OF wellformed_USD wellformed_codes(1) a, of offline]
    by (simp add: lookup_def fallbackRates_def literal_85_100)
  with a show ?thesis by (simp add: wellformed_USD wellformed_codes)
qed

theorem getExchangeRate_direct_or_inverse_counterexample:
  "wellformed_currency ''USD'' \<and> wellformed_currency ''SEK'' \<and> wellformed_currency ''EUR''
   \<and> lookup (exchangeRates (started_offline ''1'' ''USD'' ''SEK'')) ''USD'' = Object fallbackRates
   \<and> map_of fallbackRates ''SEK'' = None
   \<and> getExchangeRate offline ''USD'' ''SEK'' (started_offline ''1'' ''USD'' ''SEK'')
       = (Inl TypeError, started_offline ''1'' ''USD'' ''SEK'')
   \<and> lookup (exchangeRates (loadExchangeRates zero_entry 0 (initElements ''1'' ''USD'' ''EUR'')))
        ''USD'' = Object [(''EUR'', Number (Finite False 0 (- 1074)))]
   \<and> fst (getExchangeRate offline ''USD'' ''EUR''
             (loadExchangeRates zero_entry 0 (initElements ''1'' ''USD'' ''EUR'')))
       = Inr (Number (Finite False 4503599627370496 (- 53)))"
  by (simp add: getExchangeRate_def direct_or_inverse_def started_offline_rates zero_entry_rates
        lookup_def fallbackRates_def literal_2_1 reciprocal_2 wellformed_USD wellformed_codes
        del: js_div.simps)

section \<open>Unknown currency codes\<close>




section \<open>One table for each base\<close>



section \<open>A rate and the rate back\<close>

text \<open>
  Claim C3, as amended. When tables are cached for both \<open>x\<close> and \<open>y\<close>, the entry
  \<open>table[x][y]\<close> is a truthy Number \<open>r\<close> and \<open>table[y]\<close> has no truthy entry for \<open>x\<close>,
  then \<open>getExchangeRate(x, y)\<close> returns \<open>r\<close> and \<open>getExchangeRate(y, x)\<close> returns the
  inverse \<open>1 / r\<close>, both without a request; and for every normal \<open>r\<close> with
  \<open>2^-1022 \<le> |r| < 2^1022\<close> the product of the two, \<open>r * (1 / r)\<close>, is \<open>1\<close> or
  \<open>1 - 2^-53\<close>.

  As the claim states it, for every base \<open>b\<close> and codes \<open>x\<close>, \<open>y\<close> in \<open>table[b]\<close>, the
  product is \<open>1\<close> up to rounding. After a start that caches a table of USD with
  \<open>EUR: 0.75\<close> and a table of EUR with \<open>USD: 1.5\<close>, both directions are read from
  their own tables and the product is \<open>1.125\<close>.
\<close>

theorem getExchangeRate_round_trip:
  assumes "lookup (exchangeRates s) x = Object tx" and "lookup (exchangeRates s) y = Object ty"
    and "lookup tx y = Number r" and "ToBoolean (Number r)" and "\<not> ToBoolean (lookup ty x)"
  shows "getExchangeRate net x y s = (Inr (Number r), s)
         \<and> getExchangeRate net' y x s = (Inr (Number (js_div js_one r)), s)
         \<and> (\<forall>neg m e.
               r = Finite neg m e \<and> 2 ^ 52 \<le> m \<and> m < 2 ^ 53 \<and> - 1074 \<le> e \<and> e \<le> 969
               \<longrightarrow> js_mul r (js_div js_one r) = js_one
                   \<or> js_mul r (js_div js_one r) = Finite False 9007199254740991 (- 53))"
proof -
  have "getExchangeRate net x y s = (Inr (Number r), s)"
    "getExchangeRate net' y x s = (Inr (Number (js_div js_one r)), s)"
    using assms by (simp_all add: getExchangeRate_def direct_or_inverse_def)
  then show ?thesis
    using reciprocal_product by blast
qed

theorem getExchangeRate_round_trip_witness:
  "fst (getExchangeRate offline ''EUR'' ''USD''
          (loadExchangeRates zero_entry 0 (initElements ''1'' ''USD'' ''EUR'')))
     = Inr (Number (literal 2 1))
   \<and> fst (getExchangeRate offline ''USD'' ''EUR''
          (loadExchangeRates zero_entry 0 (initElements ''1'' ''USD'' ''EUR'')))
     = Inr (Number (js_div js_one (literal 2 1)))
   \<and> js_mul (literal 2 1) (js_div js_one (literal 2 1)) = js_one"
proof -
  have "fst (getExchangeRate offline ''EUR'' ''USD''
          (loadExchangeRates zero_entry 0 (initElements ''1'' ''USD'' ''EUR'')))
     = Inr (Number (literal 2 1))
   \<and> fst (getExchangeRate offline ''USD'' ''EUR''
          (loadExchangeRates zero_entry 0 (initElements ''1'' ''USD'' ''EUR'')))
     = Inr (Number (js_div js_one (literal 2 1)))"
    using getExchangeRate_round_trip
      [of "loadExchangeRates zero_entry 0 (initElements ''1'' ''USD'' ''EUR'')" "''EUR''"
          "[(''USD'', Number (literal 2 1))]" "''USD''"
          "[(''EUR'', Number (Finite False 0 (- 1074)))]" "literal 2 1" offline offline]
    by (simp add: zero_entry_rates lookup_def literal_2_1)
  then show ?thesis
    by (simp add: literal_2_1 reciprocal_2 product_2_half del: js_mul.simps js_div.simps)
qed

theorem getExchangeRate_round_trip_counterexample:
  "lookup (exchangeRates (loadExchangeRates both_tables 0 (initElements ''1'' ''USD'' ''EUR'')))
     ''USD'' = Object [(''USD'', Number (literal 1 1)), (''EUR'', Number (literal 3 4))]
   \<and> fst (getExchangeRate offline ''USD'' ''EUR''
            (loadExchangeRates both_tables 0 (initElements ''1'' ''USD'' ''EUR'')))
       = Inr (Number (literal 3 4))
   \<and> fst (getExchangeRate offline ''EUR'' ''USD''
            (loadExchangeRates both_tables 0 (initElements ''1'' ''USD'' ''EUR'')))
       = Inr (Number (literal 3 2))
   \<and> js_mul (literal 3 4) (literal 3 2) = literal 9 8"
  by (simp add: getExchangeRate_def direct_or_inverse_def both_tables_rates lookup_def
        literal_3_4 literal_3_2 literal_9_8 product_3_4_3_2 del: js_mul.simps)

end
